theory Spec2Isabelle
  imports Complex_Main "HOL-Library.Multiset"
begin

section \<open>Connectome wiring: data model\<close>

text \<open>
  The edge table is a pandas data frame with one row per synapse. A row carries its
  data-frame label (\<open>row_index\<close>), the columns \<open>@source_node\<close>, \<open>@target_node\<close>,
  \<open>syn_type_id\<close>, the synapse position \<open>afferent_center_x/y/z\<close>, \<open>delay\<close>, and an
  open-ended set of further named columns. Python floats are modelled as exact reals;
  node ids and row labels are natural numbers.
\<close>

record edge =
  row_index :: nat
  source_node :: nat
  target_node :: nat
  syn_type_id :: int
  afferent_center_x :: real
  afferent_center_y :: real
  afferent_center_z :: real
  delay :: real
  props :: "(string \<times> real) list"

type_synonym edges_table = "edge list"

text \<open>A node population: id, synapse class, morphological type, layer and soma position.\<close>

record node =
  node_id :: nat
  synapse_class :: string
  mtype :: string
  layer :: string
  pos_x :: real
  pos_y :: real
  pos_z :: real

type_synonym node_population = "node list"

text \<open>
  A fitted model object: its class name and its call interface. The delay model is
  called as \<open>delay_model(distance, 'mean' | 'std' | 'min')\<close>.
\<close>

record model =
  class_name :: string
  call :: "real \<Rightarrow> string \<Rightarrow> real"

text \<open>\<open>aux_dict\<close> as filled by the driver loop for each split.\<close>

record aux_dict =
  N_split :: nat
  i_split :: nat
  split_ids :: "nat list"

text \<open>
  Every raise of the source is a value. \<open>log.log_assert\<close> raises an assertion error with
  its message; a name that is bound neither in the module nor in the builtins raises
  \<open>NameError\<close> when it is evaluated.
\<close>

datatype error =
    AssertionError string
  | NameError string
  | IndexError string
  | ValueError string
  | BluepySnapError string

text \<open>
  The messages that \<open>conn_wiring.py\<close> sends to \<open>log.info\<close>, one constructor for each
  call site of the module.
\<close>

datatype log_msg =
    LoadingProbModel string
  | LoadedProbModel string
  | LoadingDelayModel string
  | LoadedDelayModel string
  | NoDelayModel
  | NoPosMapModel
  | GeneratingConnections string nat real nat nat
  | DeletedSynapses nat
  | GeneratedSynapses nat
  | Statistics "(string \<times> nat list) list"

fun is_wiring_report :: "log_msg \<Rightarrow> bool" where
  "is_wiring_report (DeletedSynapses n) = True"
| "is_wiring_report (GeneratedSynapses n) = True"
| "is_wiring_report (Statistics s) = True"
| "is_wiring_report m = False"

text \<open>
  The collaborators that \<open>apply\<close> calls and that live outside the module: the file
  system (\<open>os.path.exists\<close>), the model loader
  (\<open>model_types.AbstractModel.model_from_file\<close>) and the position-mapping loader
  (\<open>conn_prob.load_pos_mapping_model\<close>, which yields \<open>None\<close> or a map from node id to
  position).
\<close>

record env =
  path_exists :: "string \<Rightarrow> bool"
  model_from_file :: "string \<Rightarrow> model"
  load_pos_mapping_model :: "string option \<Rightarrow> (nat \<Rightarrow> real \<times> real \<times> real) option"

section \<open>Helpers from numpy and the access functions\<close>

text \<open>
  Modelled from the spec: \<open>access_functions.get_node_ids\<close> is not part of the sources.
  The spec describes the source and target selectors as neuron-subset predicates; a
  missing selector (\<open>None\<close>) selects the whole population.
\<close>

definition get_node_ids :: "node_population \<Rightarrow> (node \<Rightarrow> bool) option \<Rightarrow> nat list" where
  "get_node_ids nodes sel =
     (case sel of None \<Rightarrow> map node_id nodes | Some P \<Rightarrow> map node_id (filter P nodes))"

text \<open>
  \<open>nodes.get(ids, properties=...)\<close>: the synapse class, the morphological type and the
  layer of the node with a given id.
\<close>

definition synapse_class_of :: "node_population \<Rightarrow> nat \<Rightarrow> string option" where
  "synapse_class_of nodes i = map_of (map (\<lambda>n. (node_id n, synapse_class n)) nodes) i"

definition mtype_of :: "node_population \<Rightarrow> nat \<Rightarrow> string option" where
  "mtype_of nodes i = map_of (map (\<lambda>n. (node_id n, mtype n)) nodes) i"

definition layer_of :: "node_population \<Rightarrow> nat \<Rightarrow> string option" where
  "layer_of nodes i = map_of (map (\<lambda>n. (node_id n, layer n)) nodes) i"

text \<open>\<open>np.intersect1d\<close>: the sorted, duplicate-free common values of two arrays.\<close>

definition intersect1d :: "nat list \<Rightarrow> nat list \<Rightarrow> nat list" where
  "intersect1d xs ys = sort (remdups (filter (\<lambda>x. x \<in> set ys) xs))"

text \<open>\<open>np.round\<close> rounds to the nearest integer, a tie going to the even neighbour.\<close>

definition np_round :: "real \<Rightarrow> int" where
  "np_round x =
     (let f = \<lfloor>x\<rfloor>; d = x - of_int f
      in if d < 1 / 2 then f else if 1 / 2 < d then f + 1 else if even f then f else f + 1)"

text \<open>
  Python floats are IEEE doubles: the result of an arithmetic operation is the exact
  result rounded to the nearest double, a tie going to the even significand. A double
  has 53 significant bits, and its exponent does not go below that of the subnormal
  numbers; the values met here are far from overflow. \<open>to_double\<close> is that rounding
  on the reals.
\<close>

definition ulp_exponent :: "real \<Rightarrow> int" where
  "ulp_exponent x = max \<lfloor>log 2 \<bar>x\<bar>\<rfloor> (- 1022) - 52"

definition to_double :: "real \<Rightarrow> real" where
  "to_double x =
     (if x = 0 then 0
      else of_int (np_round (x / 2 powr (of_int (ulp_exponent x))))
             * 2 powr (of_int (ulp_exponent x)))"

text \<open>A string in double quotes, as the f-strings of the messages have it.\<close>

definition quoted :: "string \<Rightarrow> string" where
  "quoted s = [CHR 0x22] @ s @ [CHR 0x22]"

text \<open>
  \<open>np.random.permutation\<close>: the state of the generator is a list of raw draws; each
  draw picks the next element among those that are left.
\<close>

fun random_permutation :: "nat list \<Rightarrow> 'a list \<Rightarrow> 'a list" where
  "random_permutation [] xs = xs"
| "random_permutation (r # rs) xs =
     (if xs = [] then []
      else let i = r mod length xs
           in xs ! i # random_permutation rs (take i xs @ drop (Suc i) xs))"

text \<open>\<open>np.sum\<close> of a boolean array, and indexing by a boolean mask.\<close>

definition np_sum :: "bool list \<Rightarrow> nat" where
  "np_sum bs = length (filter (\<lambda>b. b) bs)"

definition mask_select :: "'a list \<Rightarrow> bool list \<Rightarrow> 'a list" where
  "mask_select xs bs = map fst (filter snd (zip xs bs))"

section \<open>\<open>conn_wiring.apply\<close>\<close>

text \<open>
  Lines 46--48: the source candidates are the selected source nodes of the requested
  synapse class.
\<close>

definition source_candidates :: "node_population \<Rightarrow> (node \<Rightarrow> bool) option \<Rightarrow> string \<Rightarrow> nat list" where
  "source_candidates src_nodes sel_src syn_class =
     filter (\<lambda>i. synapse_class_of src_nodes i = Some syn_class) (get_node_ids src_nodes sel_src)"

text \<open>Lines 50--52: the synapse-class check on the rows whose source is a candidate.\<close>

definition synapse_class_ok :: "edges_table \<Rightarrow> nat list \<Rightarrow> string \<Rightarrow> bool" where
  "synapse_class_ok edges_table src_node_ids syn_class =
     (let sel = filter (\<lambda>e. source_node e \<in> set src_node_ids) edges_table
      in if syn_class = ''EXC'' then list_all (\<lambda>e. 100 \<le> syn_type_id e) sel
         else list_all (\<lambda>e. syn_type_id e < 100) sel)"

text \<open>Lines 55--57: the selected target nodes that lie in the current split.\<close>

definition target_candidates :: "node_population \<Rightarrow> (node \<Rightarrow> bool) option \<Rightarrow> aux_dict \<Rightarrow> nat list" where
  "target_candidates tgt_nodes sel_dest aux = intersect1d (get_node_ids tgt_nodes sel_dest) (split_ids aux)"

text \<open>
  Line 58: the number of target neurons to wire,
  \<open>np.round(amount_pct * len(tgt_node_ids) / 100).astype(int)\<close>. The length is
  converted to a double, and the product and the quotient are each rounded to a double
  before \<open>np.round\<close> sees the value.
\<close>

definition num_tgt_of :: "real \<Rightarrow> nat list \<Rightarrow> nat" where
  "num_tgt_of amount_pct tgt_node_ids =
     nat (np_round (to_double (to_double (amount_pct * to_double (real (length tgt_node_ids))) / 100)))"

text \<open>Line 59: the random selection mask over the target candidates.\<close>

definition tgt_sel_of :: "nat list \<Rightarrow> real \<Rightarrow> nat list \<Rightarrow> bool list" where
  "tgt_sel_of rng amount_pct tgt_node_ids =
     (let num_tgt = num_tgt_of amount_pct tgt_node_ids
      in random_permutation rng
           (replicate num_tgt True @ replicate (length tgt_node_ids - num_tgt) False))"

text \<open>Lines 26--43: the messages of the loading phase.\<close>

definition loading_log :: "env \<Rightarrow> string \<Rightarrow> string option \<Rightarrow> string option \<Rightarrow> log_msg list" where
  "loading_log ev prob_model_file delay_model_file pos_map_file =
     [LoadingProbModel prob_model_file,
      LoadedProbModel (class_name (model_from_file ev prob_model_file))]
     @ (case delay_model_file of
          None \<Rightarrow> [NoDelayModel]
        | Some f \<Rightarrow> [LoadingDelayModel f, LoadedDelayModel (class_name (model_from_file ev f))])
     @ (case load_pos_mapping_model ev pos_map_file of
          None \<Rightarrow> [NoPosMapModel]
        | Some m \<Rightarrow> [])"

text \<open>
  The function itself, lines 18--69. The branch for an empty selection calls
  \<open>logging.info\<close>; the module imports \<open>log\<close> but never \<open>logging\<close>, so the call raises
  \<open>NameError\<close> before the \<open>return\<close> that follows it. Lines 63--65 narrow the targets
  to the selected ones and read their morphological types and layers; line 53 reads the
  positions of the source candidates; none of these values is used before line 69,
  which returns the table it was given. The statements of lines 71--202 come after this
  unconditional \<open>return\<close> and are never executed (they also read names that are bound
  nowhere in the module:
  \<open>model_order\<close>, \<open>keep_indegree\<close>, \<open>syn_sel_idx\<close>, \<open>stats_dict\<close>, \<open>gen_method\<close>,
  \<open>props_sel\<close>); they have no counterpart in the model. The function returns the
  table; the model returns the messages sent to the log with it. The messages of the
  assertions are those of the source.
\<close>

definition conn_wiring_apply ::
  "env \<Rightarrow> nat list \<Rightarrow> edges_table \<Rightarrow> node_population \<times> node_population \<Rightarrow> aux_dict \<Rightarrow>
   string \<Rightarrow> string \<Rightarrow> (node \<Rightarrow> bool) option \<Rightarrow> (node \<Rightarrow> bool) option \<Rightarrow>
   string option \<Rightarrow> string option \<Rightarrow> real \<Rightarrow> error + (edges_table \<times> log_msg list)" where
  "conn_wiring_apply ev rng edges_table nodes aux syn_class prob_model_file sel_src sel_dest
     delay_model_file pos_map_file amount_pct =
     (if length edges_table \<noteq> 0 then Inl (AssertionError ''Initial connectome must be empty!'')
      else if syn_class \<notin> set [''EXC'', ''INH'']
        then Inl (AssertionError (''Synapse class '' @ quoted syn_class @ '' not supported (must be ''
               @ quoted ''EXC'' @ '' or '' @ quoted ''INH'' @ '')!''))
      else if \<not> (0 \<le> amount_pct \<and> amount_pct \<le> 100)
        then Inl (AssertionError ''amount_pct out of range!'')
      else if \<not> path_exists ev prob_model_file
        then Inl (AssertionError ''Conn. prob. model file not found!'')
      else if (case delay_model_file of None \<Rightarrow> False | Some f \<Rightarrow> \<not> path_exists ev f)
        then Inl (AssertionError ''Delay model file not found!'')
      else
        let src_node_ids = source_candidates (fst nodes) sel_src syn_class in
        if \<not> 0 < length src_node_ids then Inl (AssertionError (''No '' @ syn_class @ '' source nodes found!''))
        else if \<not> synapse_class_ok edges_table src_node_ids syn_class
          then Inl (AssertionError ''Synapse class error!'')
        else
          let tgt_node_ids = target_candidates (snd nodes) sel_dest aux;
              num_tgt_total = length (get_node_ids (snd nodes) sel_dest);
              num_tgt = num_tgt_of amount_pct tgt_node_ids;
              tgt_sel = tgt_sel_of rng amount_pct tgt_node_ids
          in if np_sum tgt_sel = 0 then Inl (NameError ''logging'')
             else
               let tgt_node_ids' = mask_select tgt_node_ids tgt_sel;
                   tgt_mtypes = map (mtype_of (snd nodes)) tgt_node_ids';
                   tgt_layers = map (layer_of (snd nodes)) tgt_node_ids'
               in Inr (edges_table,
                    loading_log ev prob_model_file delay_model_file pos_map_file
                    @ [GeneratingConnections syn_class num_tgt amount_pct (length tgt_sel) num_tgt_total]))"

section \<open>\<open>conn_wiring.assign_delays_from_model\<close>\<close>

text \<open>
  \<open>nodes[0].positions(src_new)\<close> is the node library's lookup of the soma positions
  of the given ids; it raises when an id is not in the population.
\<close>

definition position_of :: "node_population \<Rightarrow> nat \<Rightarrow> (real \<times> real \<times> real) option" where
  "position_of nodes i = map_of (map (\<lambda>n. (node_id n, (pos_x n, pos_y n, pos_z n))) nodes) i"

fun positions :: "node_population \<Rightarrow> nat list \<Rightarrow> error + (real \<times> real \<times> real) list" where
  "positions nodes [] = Inr []"
| "positions nodes (i # ids) =
     (case position_of nodes i of
        None \<Rightarrow> Inl (BluepySnapError ''node id not in population'')
      | Some p \<Rightarrow> (case positions nodes ids of Inl e \<Rightarrow> Inl e | Inr ps \<Rightarrow> Inr (p # ps)))"

text \<open>
  Line 218: \<open>np.sqrt(np.sum((syn_pos - src_new_pos[src_syn_idx, :])**2, 1))\<close>. The
  subtraction of an \<open>(n, 3)\<close> and an \<open>(m, 3)\<close> array is elementwise when \<open>n = m\<close>,
  broadcasts a single row, and raises otherwise.
\<close>

definition euclidean :: "real \<times> real \<times> real \<Rightarrow> real \<times> real \<times> real \<Rightarrow> real" where
  "euclidean p q =
     (case p of (x, y, z) \<Rightarrow> (case q of (a, b, c) \<Rightarrow> sqrt ((x - a)\<^sup>2 + (y - b)\<^sup>2 + (z - c)\<^sup>2)))"

definition broadcast_dist ::
  "(real \<times> real \<times> real) list \<Rightarrow> (real \<times> real \<times> real) list \<Rightarrow> error + real list" where
  "broadcast_dist ps qs =
     (if length ps = length qs then Inr (map (\<lambda>(p, q). euclidean p q) (zip ps qs))
      else if length qs = 1 then Inr (map (\<lambda>p. euclidean p (hd qs)) ps)
      else if length ps = 1 then Inr (map (\<lambda>q. euclidean (hd ps) q) qs)
      else Inl (ValueError ''operands could not be broadcast together''))"

text \<open>
  The function, lines 205--229. It mutates the table in place and returns nothing; the
  model returns the table. Line 226 calls \<open>truncnorm\<close>, a name that the module neither
  defines nor imports: once the three early exits of line 212 are passed and the
  distances and model parameters of lines 216--223 are computed, evaluating the name
  raises \<open>NameError\<close>, and line 229, which would write the \<open>delay\<close> column, is not
  reached.
\<close>

definition assign_delays_from_model ::
  "model option \<Rightarrow> node_population \<times> node_population \<Rightarrow> edges_table \<Rightarrow> nat list \<Rightarrow> nat list \<Rightarrow>
   bool list option \<Rightarrow> error + edges_table" where
  "assign_delays_from_model delay_model nodes edges_table src_new src_syn_idx syn_sel_idx =
     (case delay_model of
        None \<Rightarrow> Inl (AssertionError ''Delay model required!'')
      | Some dm \<Rightarrow>
          let sel = (case syn_sel_idx of
                       None \<Rightarrow> replicate (length edges_table) True
                     | Some s \<Rightarrow> s)
          in if length src_new = 0 \<or> length src_syn_idx = 0 \<or> np_sum sel = 0 then Inr edges_table
             else
               (case positions (fst nodes) src_new of
                  Inl e \<Rightarrow> Inl e
                | Inr src_new_pos \<Rightarrow>
                    if length sel \<noteq> length edges_table
                      then Inl (IndexError ''Boolean index has wrong length'')
                    else
                      let syn_pos = map (\<lambda>e. (afferent_center_x e, afferent_center_y e, afferent_center_z e))
                                      (mask_select edges_table sel)
                      in if list_ex (\<lambda>i. length src_new_pos \<le> i) src_syn_idx
                           then Inl (IndexError ''index out of bounds'')
                         else
                           (case broadcast_dist syn_pos (map (\<lambda>i. src_new_pos ! i) src_syn_idx) of
                              Inl e \<Rightarrow> Inl e
                            | Inr syn_dist \<Rightarrow>
                                let d_mean = map (\<lambda>d. call dm d ''mean'') syn_dist;
                                    d_std = map (\<lambda>d. call dm d ''std'') syn_dist;
                                    d_min = map (\<lambda>d. call dm d ''min'') syn_dist
                                in Inl (NameError ''truncnorm''))))"

section \<open>A small circuit\<close>

text \<open>
  Ten excitatory source neurons with ids 0 to 9, five target neurons with ids 10 to 14
  in one split, a file system that holds a probability model and a delay model, and no
  position mapping.
\<close>

definition mk_node :: "string \<Rightarrow> nat \<Rightarrow> node" where
  "mk_node cls i =
     \<lparr>node_id = i, synapse_class = cls, mtype = ''L5_TPC'', layer = ''5'',
      pos_x = real i, pos_y = 0, pos_z = 0\<rparr>"

definition example_src :: node_population where
  "example_src = map (mk_node ''EXC'') [0, 1, 2, 3, 4, 5, 6, 7, 8, 9]"

definition example_tgt :: node_population where
  "example_tgt = map (mk_node ''INH'') [10, 11, 12, 13, 14]"

definition example_aux :: aux_dict where
  "example_aux = \<lparr>N_split = 1, i_split = 0, split_ids = [10, 11, 12, 13, 14]\<rparr>"

definition const_model :: "string \<Rightarrow> real \<Rightarrow> model" where
  "const_model name p = \<lparr>class_name = name, call = (\<lambda>d stat. p)\<rparr>"

definition example_env :: env where
  "example_env =
     \<lparr>path_exists = (\<lambda>f. f = ''prob.json'' \<or> f = ''delay.json''),
      model_from_file = (\<lambda>f. if f = ''delay.json'' then const_model ''LinDelayModel'' 1
                              else const_model ''ConnProb1stOrderModel'' (3 / 10)),
      load_pos_mapping_model = (\<lambda>f. None)\<rparr>"

definition example_edge :: "nat \<Rightarrow> nat \<Rightarrow> nat \<Rightarrow> edge" where
  "example_edge i s t =
     \<lparr>row_index = i, source_node = s, target_node = t, syn_type_id = 120,
      afferent_center_x = 3, afferent_center_y = 4, afferent_center_z = 0,
      delay = 1, props = [(''conductance'', 1 / 2)]\<rparr>"

section \<open>Facts about the helpers\<close>

text \<open>\<open>np.round\<close> leaves an integer as it is.\<close>

lemma np_round_int: "np_round (of_int m) = m"
  by (simp add: np_round_def)

text \<open>An integer below \<open>2\<^sup>5\<^sup>3\<close> in absolute value is a double.\<close>

lemma to_double_int:
  assumes "\<bar>n\<bar> < 2 ^ 53"
  shows "to_double (of_int n) = of_int n"
proof (cases "n = 0")
  case True
  then show ?thesis by (simp add: to_double_def)
next
  case False
  define x :: real where "x = of_int n"
  have x1: "1 \<le> \<bar>x\<bar>" using False unfolding x_def by linarith
  have "real_of_int \<bar>n\<bar> < real_of_int (2 ^ 53)" using assms by (simp only: of_int_less_iff)
  then have x2: "\<bar>x\<bar> < 2 ^ 53" unfolding x_def by simp
  have e0: "0 \<le> \<lfloor>log 2 \<bar>x\<bar>\<rfloor>" using x1 by simp
  have "\<bar>x\<bar> < 2 powr 53" using x2 by simp
  then have "log 2 \<bar>x\<bar> < 53" using x1 by (simp add: log_less_iff)
  then have e1: "\<lfloor>log 2 \<bar>x\<bar>\<rfloor> \<le> 52" by linarith
  define j where "j = nat (52 - \<lfloor>log 2 \<bar>x\<bar>\<rfloor>)"
  have k: "ulp_exponent x = - int j" using e0 e1 by (simp add: ulp_exponent_def j_def)
  have p: "2 powr (of_int (ulp_exponent x)) = (1::real) / 2 ^ j"
    unfolding k by (simp add: powr_minus powr_realpow inverse_eq_divide)
  have "x / (1 / 2 ^ j) = of_int (n * 2 ^ j)" by (simp add: x_def)
  then have "np_round (x / 2 powr (of_int (ulp_exponent x))) = n * 2 ^ j"
    unfolding p by (simp only: np_round_int)
  moreover have "x \<noteq> 0" using x1 by auto
  ultimately have "to_double x = of_int (n * 2 ^ j) * (1 / 2 ^ j)"
    by (simp only: to_double_def p if_False)
  then show ?thesis by (simp add: x_def)
qed

lemma to_double_nat: "n < 2 ^ 53 \<Longrightarrow> to_double (real n) = real n"
  using to_double_int [of "int n"] by simp

text \<open>The double nearest to a real whose binary exponent is known.\<close>

lemma ulp_exponent_eq:
  assumes "2 ^ e \<le> \<bar>x\<bar>" and "\<bar>x\<bar> < 2 ^ Suc e"
  shows "ulp_exponent x = int e - 52"
proof -
  have "(0::real) < 2 ^ e" by simp
  then have pos: "0 < \<bar>x\<bar>" using assms(1) by linarith
  have "(2::real) powr (real e) \<le> \<bar>x\<bar>" using assms(1) by (simp add: powr_realpow)
  then have a: "real e \<le> log 2 \<bar>x\<bar>" using pos by (simp add: le_log_iff)
  have "\<bar>x\<bar> < (2::real) powr (real (Suc e))" using assms(2) by (simp only: powr_realpow zero_less_numeral)
  then have b: "log 2 \<bar>x\<bar> < real (Suc e)" using pos by (simp only: log_less_iff one_less_numeral_iff semiring_norm)
  have "\<lfloor>log 2 \<bar>x\<bar>\<rfloor> = int e" using a b by (simp add: floor_eq_iff)
  then show ?thesis by (simp add: ulp_exponent_def)
qed

lemma to_double_eq:
  assumes "2 ^ e \<le> \<bar>x\<bar>" and "\<bar>x\<bar> < 2 ^ Suc e" and "e \<le> 52"
  shows "to_double x = of_int (np_round (x * 2 ^ (52 - e))) / 2 ^ (52 - e)"
proof -
  have "(0::real) < 2 ^ e" by simp
  then have nz: "x \<noteq> 0" using assms(1) by linarith
  have k: "ulp_exponent x = - int (52 - e)"
    using ulp_exponent_eq [OF assms(1,2)] assms(3) by simp
  have p: "2 powr (of_int (ulp_exponent x)) = (1::real) / 2 ^ (52 - e)"
    unfolding k by (simp add: powr_minus powr_realpow inverse_eq_divide)
  show ?thesis using nz by (simp add: to_double_def p)
qed

text \<open>A random permutation reorders its argument and neither adds nor drops an element.\<close>

lemma mset_random_permutation: "mset (random_permutation rs xs) = mset xs"
proof (induction rs arbitrary: xs)
  case Nil then show ?case by simp
next
  case (Cons r rs)
  show ?case
  proof (cases "xs = []")
    case True then show ?thesis by simp
  next
    case False
    define i where "i = r mod length xs"
    have i: "i < length xs" using False by (simp add: i_def)
    have "mset xs = mset (take i xs @ xs ! i # drop (Suc i) xs)"
      using id_take_nth_drop[OF i] by simp
    then show ?thesis using False Cons.IH[of "take i xs @ drop (Suc i) xs"]
      by (simp add: i_def Let_def)
  qed
qed

lemma np_sum_mset: "np_sum bs = count (mset bs) True"
  by (induction bs) (auto simp: np_sum_def)

text \<open>Whatever the draws, the selection mask holds exactly \<open>num_tgt\<close> true entries.\<close>

lemma np_sum_tgt_sel: "np_sum (tgt_sel_of rng pct ids) = num_tgt_of pct ids"
  by (simp add: tgt_sel_of_def Let_def np_sum_mset mset_random_permutation)

lemma synapse_class_ok_empty: "synapse_class_ok [] ids cls"
  by (simp add: synapse_class_ok_def)

lemma length_tgt_sel:
  "length (tgt_sel_of rng pct ids) = num_tgt_of pct ids + (length ids - num_tgt_of pct ids)"
proof -
  have "size (mset (tgt_sel_of rng pct ids))
        = size (mset (replicate (num_tgt_of pct ids) True
                      @ replicate (length ids - num_tgt_of pct ids) False))"
    by (simp add: tgt_sel_of_def Let_def mset_random_permutation)
  then show ?thesis by simp
qed

text \<open>
  Every return of \<open>apply\<close> goes through line 69, with the table it was given, and
  that table is empty. What holds of every table therefore holds of the returned one
  only because it has no rows: its order by target and source, its row index, the
  in-degree of a target, the values of the property columns within a connection.
\<close>

lemma conn_wiring_apply_Inr:
  assumes "conn_wiring_apply ev rng edges_table nodes aux syn_class prob_model_file sel_src sel_dest
             delay_model_file pos_map_file amount_pct = Inr (out, lg)"
  shows "out = edges_table" and "edges_table = []"
    and "lg = loading_log ev prob_model_file delay_model_file pos_map_file
              @ [GeneratingConnections syn_class
                   (num_tgt_of amount_pct (target_candidates (snd nodes) sel_dest aux)) amount_pct
                   (length (tgt_sel_of rng amount_pct (target_candidates (snd nodes) sel_dest aux)))
                   (length (get_node_ids (snd nodes) sel_dest))]"
  using assms by (auto simp: conn_wiring_apply_def Let_def split: if_splits)

lemma loading_log_no_report: "list_all (\<lambda>m. \<not> is_wiring_report m) (loading_log ev p d m)"
  by (simp add: loading_log_def split: option.splits)

text \<open>The small circuit, evaluated.\<close>

lemma example_source_candidates:
  "source_candidates example_src None ''EXC'' = [0, 1, 2, 3, 4, 5, 6, 7, 8, 9]"
  by (simp add: source_candidates_def get_node_ids_def synapse_class_of_def example_src_def mk_node_def)

lemma example_target_candidates:
  "target_candidates example_tgt None example_aux = [10, 11, 12, 13, 14]"
  by (simp add: target_candidates_def intersect1d_def get_node_ids_def example_tgt_def example_aux_def mk_node_def)

lemma example_num_tgt_total: "length (get_node_ids example_tgt None) = 5"
  by (simp add: get_node_ids_def example_tgt_def)

lemma example_num_tgt_100: "num_tgt_of 100 [10, 11, 12, 13, 14] = 5"
proof -
  have "to_double 5 = 5" and "to_double 500 = 500"
    using to_double_int [of 5] to_double_int [of 500] by simp_all
  then show ?thesis
    using np_round_int [of 5] by (simp add: num_tgt_of_def)
qed

lemma example_num_tgt_0: "num_tgt_of 0 ids = 0"
  using np_round_int [of 0] by (simp add: num_tgt_of_def to_double_def)

text \<open>
  The rounding of line 58 follows the doubles. At the double nearest to 32.2 and 250
  target neurons the exact value is just above the tie 80.5; the product and the
  quotient each round up, and 81 neurons are selected.
\<close>

lemma example_num_tgt_tie:
  assumes "length ids = 250"
  shows "num_tgt_of (2265873562520781 / 2 ^ 46) ids = 81"
proof -
  have n: "to_double (real (length ids)) = 250"
    using to_double_nat [of 250] assms by simp
  have p: "to_double (2265873562520781 / 2 ^ 46 * 250) = 8851068603596801 / 2 ^ 40"
    using to_double_eq [of 12 "2265873562520781 / 2 ^ 46 * 250"]
    by (simp add: np_round_def)
  have q: "to_double (8851068603596801 / 2 ^ 40 / 100) = 5664683906301953 / 2 ^ 46"
    using to_double_eq [of 6 "8851068603596801 / 2 ^ 40 / 100"]
    by (simp add: np_round_def)
  have r: "np_round (5664683906301953 / 2 ^ 46) = 81"
    by (simp add: np_round_def)
  show ?thesis by (simp only: num_tgt_of_def n p q r)
qed

lemma example_apply_100:
  "conn_wiring_apply example_env rng [] (example_src, example_tgt) example_aux
     ''EXC'' ''prob.json'' None None None None 100
   = Inr ([], [LoadingProbModel ''prob.json'', LoadedProbModel ''ConnProb1stOrderModel'',
               NoDelayModel, NoPosMapModel, GeneratingConnections ''EXC'' 5 100 5 5])"
  by (simp add: conn_wiring_apply_def Let_def example_env_def example_source_candidates
      example_target_candidates synapse_class_ok_empty np_sum_tgt_sel example_num_tgt_100
      loading_log_def const_model_def example_num_tgt_total length_tgt_sel)

section \<open>The wiring function returns its input\<close>

text \<open>
  Claim C1. Let the arguments of \<open>conn_wiring.apply\<close> meet its preconditions: the
  initial edge table is empty, the synapse class is \<open>EXC\<close> or \<open>INH\<close>, \<open>amount_pct\<close> lies
  in \<open>[0, 100]\<close>, the probability-model file exists, a delay-model file, if one is
  named, exists, and there is a source candidate of the requested class. If at least one
  target neuron is selected, the function returns the table it was given, and its log
  holds no report of deleted or generated synapses and no statistics. This holds for
  every state of the random generator and for whatever models the files hold; the
  function has no \<open>keep_indegree\<close> parameter.
\<close>

theorem conn_wiring_apply_returns_input:
  assumes "length edges_table = 0"
    and "syn_class \<in> {''EXC'', ''INH''}"
    and "0 \<le> amount_pct" and "amount_pct \<le> 100"
    and "path_exists ev prob_model_file"
    and "\<forall>f. delay_model_file = Some f \<longrightarrow> path_exists ev f"
    and "0 < length (source_candidates (fst nodes) sel_src syn_class)"
    and "np_sum (tgt_sel_of rng amount_pct (target_candidates (snd nodes) sel_dest aux)) \<noteq> 0"
  shows "\<exists>lg. conn_wiring_apply ev rng edges_table nodes aux syn_class prob_model_file sel_src sel_dest
                 delay_model_file pos_map_file amount_pct = Inr (edges_table, lg)
              \<and> list_all (\<lambda>m. \<not> is_wiring_report m) lg"
proof -
  have d: "\<not> (case delay_model_file of None \<Rightarrow> False | Some f \<Rightarrow> \<not> path_exists ev f)"
    using assms(6) by (simp split: option.splits)
  have e: "edges_table = []" using assms(1) by simp
  show ?thesis
    using assms(2-5,7,8) d
    by (simp add: conn_wiring_apply_def Let_def e synapse_class_ok_empty loading_log_no_report)
qed

text \<open>
  The theorem at the small circuit: all five targets are selected, a delay model is
  given, and the empty table comes back.
\<close>

theorem conn_wiring_apply_returns_input_witness:
  "\<exists>lg. conn_wiring_apply example_env [3, 1, 4, 1, 5] [] (example_src, example_tgt) example_aux
           ''EXC'' ''prob.json'' None None (Some ''delay.json'') None 100 = Inr ([], lg)
        \<and> list_all (\<lambda>m. \<not> is_wiring_report m) lg"
proof -
  have "np_sum (tgt_sel_of [3, 1, 4, 1, 5] 100 (target_candidates (snd (example_src, example_tgt)) None example_aux)) \<noteq> 0"
    by (simp add: np_sum_tgt_sel example_target_candidates example_num_tgt_100)
  moreover have "0 < length (source_candidates (fst (example_src, example_tgt)) None ''EXC'')"
    by (simp add: example_source_candidates)
  ultimately show ?thesis
    using conn_wiring_apply_returns_input [of "[]" "''EXC''" 100 example_env "''prob.json''"
        "Some ''delay.json''" "(example_src, example_tgt)" None "[3, 1, 4, 1, 5]" None example_aux None]
    by (simp add: example_env_def)
qed

section \<open>Input contract\<close>

text \<open>
  Claim C10. When the initial edge table is not empty, or the synapse class is neither
  \<open>EXC\<close> nor \<open>INH\<close>, or \<open>amount_pct\<close> lies outside \<open>[0, 100]\<close>, or the probability-model
  file does not exist, \<open>conn_wiring.apply\<close> fails with the assertion error of the first
  violated check; no table is returned and none has been changed.
\<close>

theorem conn_wiring_apply_contract_violation:
  assumes "length edges_table \<noteq> 0 \<or> syn_class \<notin> {''EXC'', ''INH''}
           \<or> \<not> (0 \<le> amount_pct \<and> amount_pct \<le> 100) \<or> \<not> path_exists ev prob_model_file"
  shows "\<exists>msg. conn_wiring_apply ev rng edges_table nodes aux syn_class prob_model_file sel_src sel_dest
                 delay_model_file pos_map_file amount_pct = Inl (AssertionError msg)
              \<and> msg \<in> {''Initial connectome must be empty!'',
                       ''Synapse class '' @ quoted syn_class @ '' not supported (must be ''
                         @ quoted ''EXC'' @ '' or '' @ quoted ''INH'' @ '')!'',
                       ''amount_pct out of range!'',
                       ''Conn. prob. model file not found!''}"
  using assms by (auto simp: conn_wiring_apply_def)

text \<open>
  The theorem at four calls on the small circuit, one for each check: a table with one
  row, the class \<open>MOD\<close>, 150 percent, and a model file that does not exist.
\<close>

theorem conn_wiring_apply_contract_violation_witness:
  "(\<exists>msg. conn_wiring_apply example_env [] [example_edge 0 3 10] (example_src, example_tgt) example_aux
            ''EXC'' ''prob.json'' None None None None 100 = Inl (AssertionError msg))
   \<and> (\<exists>msg. conn_wiring_apply example_env [] [] (example_src, example_tgt) example_aux
            ''MOD'' ''prob.json'' None None None None 100 = Inl (AssertionError msg))
   \<and> (\<exists>msg. conn_wiring_apply example_env [] [] (example_src, example_tgt) example_aux
            ''EXC'' ''prob.json'' None None None None 150 = Inl (AssertionError msg))
   \<and> (\<exists>msg. conn_wiring_apply example_env [] [] (example_src, example_tgt) example_aux
            ''EXC'' ''missing.json'' None None None None 100 = Inl (AssertionError msg))"
proof -
  have a: "length [example_edge 0 3 10] \<noteq> 0 \<or> ''EXC'' \<notin> {''EXC'', ''INH''}
           \<or> \<not> (0 \<le> (100::real) \<and> (100::real) \<le> 100) \<or> \<not> path_exists example_env ''prob.json''"
    by simp
  have b: "length ([]::edge list) \<noteq> 0 \<or> ''MOD'' \<notin> {''EXC'', ''INH''}
           \<or> \<not> (0 \<le> (100::real) \<and> (100::real) \<le> 100) \<or> \<not> path_exists example_env ''prob.json''"
    by simp
  have c: "length ([]::edge list) \<noteq> 0 \<or> ''EXC'' \<notin> {''EXC'', ''INH''}
           \<or> \<not> (0 \<le> (150::real) \<and> (150::real) \<le> 100) \<or> \<not> path_exists example_env ''prob.json''"
    by simp
  have d: "length ([]::edge list) \<noteq> 0 \<or> ''EXC'' \<notin> {''EXC'', ''INH''}
           \<or> \<not> (0 \<le> (100::real) \<and> (100::real) \<le> 100) \<or> \<not> path_exists example_env ''missing.json''"
    by (simp add: example_env_def)
  from conn_wiring_apply_contract_violation
         [OF a, where rng = "[]" and nodes = "(example_src, example_tgt)" and aux = example_aux
               and sel_src = None and sel_dest = None and delay_model_file = None
               and pos_map_file = None]
  obtain ma where A: "conn_wiring_apply example_env [] [example_edge 0 3 10] (example_src, example_tgt) example_aux
      ''EXC'' ''prob.json'' None None None None 100 = Inl (AssertionError ma)"
    by (elim exE conjE)
  from conn_wiring_apply_contract_violation
         [OF b, where rng = "[]" and nodes = "(example_src, example_tgt)" and aux = example_aux
               and sel_src = None and sel_dest = None and delay_model_file = None
               and pos_map_file = None]
  obtain mb where B: "conn_wiring_apply example_env [] [] (example_src, example_tgt) example_aux
      ''MOD'' ''prob.json'' None None None None 100 = Inl (AssertionError mb)"
    by (elim exE conjE)
  from conn_wiring_apply_contract_violation
         [OF c, where rng = "[]" and nodes = "(example_src, example_tgt)" and aux = example_aux
               and sel_src = None and sel_dest = None and delay_model_file = None
               and pos_map_file = None]
  obtain mc where C: "conn_wiring_apply example_env [] [] (example_src, example_tgt) example_aux
      ''EXC'' ''prob.json'' None None None None 150 = Inl (AssertionError mc)"
    by (elim exE conjE)
  from conn_wiring_apply_contract_violation
         [OF d, where rng = "[]" and nodes = "(example_src, example_tgt)" and aux = example_aux
               and sel_src = None and sel_dest = None and delay_model_file = None
               and pos_map_file = None]
  obtain md where D: "conn_wiring_apply example_env [] [] (example_src, example_tgt) example_aux
      ''EXC'' ''missing.json'' None None None None 100 = Inl (AssertionError md)"
    by (elim exE conjE)
  show ?thesis
    by (intro conjI exI) (rule A, rule B, rule C, rule D)
qed

section \<open>An empty selection\<close>

text \<open>
  Claim C2 says that \<open>amount_pct = 0\<close>, or any batch in which no target neuron is
  selected, is a no-op that returns the input table and raises no error. On the small
  circuit with \<open>amount_pct = 0\<close> and every other precondition met, the function reaches
  the branch for an empty selection and raises \<open>NameError\<close> there, for every state of
  the random generator: the branch logs through \<open>logging\<close>, which the module never
  imports, and the \<open>return edges_table\<close> after it is not reached.
\<close>

theorem conn_wiring_apply_amount_zero_raises:
  "conn_wiring_apply example_env rng [] (example_src, example_tgt) example_aux
     ''EXC'' ''prob.json'' None None None None 0 = Inl (NameError ''logging'')"
  by (simp add: conn_wiring_apply_def Let_def example_env_def example_source_candidates
      synapse_class_ok_empty np_sum_tgt_sel example_num_tgt_0)

section \<open>The wiring scenario\<close>

text \<open>
  Claim C3 says that with an empty table, the class \<open>EXC\<close>, a constant probability
  model of 0.3, ten candidate sources and five target neurons, each candidate becomes a
  source of each target by a Bernoulli trial with probability 0.3. On that input the
  function returns the empty table for every state of the random generator: no synapse
  is removed and none is added, and the log ends with the announcement of line 67.
\<close>

theorem conn_wiring_apply_scenario_adds_nothing:
  "conn_wiring_apply example_env rng [] (example_src, example_tgt) example_aux
     ''EXC'' ''prob.json'' None None None None 100
   = Inr ([], [LoadingProbModel ''prob.json'', LoadedProbModel ''ConnProb1stOrderModel'',
               NoDelayModel, NoPosMapModel, GeneratingConnections ''EXC'' 5 100 5 5])"
  by (rule example_apply_100)

section \<open>Delay assignment stops at line 226\<close>

text \<open>
  Claim C7 says that every delay that \<open>assign_delays_from_model\<close> assigns is drawn from
  a normal distribution truncated at the model's minimum and is written into the
  \<open>delay\<close> column of the selected rows. With a delay model, one new source (neuron 5)
  and one selected synapse, the function computes the distance and the model's
  parameters and then raises \<open>NameError\<close> on \<open>truncnorm\<close>; no delay is drawn or
  written.
\<close>

theorem assign_delays_from_model_raises:
  "assign_delays_from_model (Some (const_model ''LinDelayModel'' 1)) (example_src, example_tgt)
     [example_edge 0 3 10] [5] [0] None = Inl (NameError ''truncnorm'')"
  by (simp add: assign_delays_from_model_def np_sum_def position_of_def example_src_def mk_node_def
      broadcast_dist_def mask_select_def example_edge_def Let_def)

section \<open>Delay assignment without work to do\<close>




end
